theory Spec2Isabelle
  imports Main
begin

section \<open>JavaScript values\<close>

text \<open>
  The raw configuration bag is a \<^verbatim>\<open>Record<string, any>\<close>, and several fields of the
  parameter classes are copied from it unchecked, so a field can hold any primitive
  (bags whose values are objects or arrays are left out). Numbers are the integers
  together with not-a-number; fractional and infinite doubles are left out (they behave
  like a non-zero integer in every test the code makes).
\<close>

datatype jsnum = Num int | NaN

datatype jsprim = Undefined | Null | Bool bool | Number jsnum | Str string

text \<open>Values that come back from the server: rows, error objects, parsed JSON.\<close>

datatype jsval = Prim jsprim | Arr "jsval list" | Obj "(string \<times> jsval) list"

text \<open>
  What a call can throw or a promise can reject with: the engine's own \<^verbatim>\<open>TypeError\<close>
  (reading a property of \<^verbatim>\<open>undefined\<close> or \<^verbatim>\<open>null\<close>, calling a method a value lacks),
  an \<^verbatim>\<open>Error\<close> the code builds itself, or the error object of a failed remote call.
\<close>

datatype js_error = TypeError | Error string | Rejected jsval

text \<open>\<^verbatim>\<open>a === b\<close> on primitives: not-a-number differs from everything, itself included.\<close>

definition strict_eq :: "jsprim \<Rightarrow> jsprim \<Rightarrow> bool" where
  "strict_eq a b = (a = b \<and> a \<noteq> Number NaN)"

definition num_strict_eq :: "jsnum \<Rightarrow> jsnum \<Rightarrow> bool" where
  "num_strict_eq a b = (a = b \<and> a \<noteq> NaN)"

definition isNaN :: "jsnum \<Rightarrow> bool" where
  "isNaN n = (n = NaN)"

fun num_truthy :: "jsnum \<Rightarrow> bool" where
  "num_truthy NaN = False"
| "num_truthy (Num n) = (n \<noteq> 0)"

fun truthy :: "jsprim \<Rightarrow> bool" where
  "truthy Undefined = False"
| "truthy Null = False"
| "truthy (Bool b) = b"
| "truthy (Number n) = num_truthy n"
| "truthy (Str s) = (s \<noteq> [])"

text \<open>\<^verbatim>\<open>a || b\<close>\<close>

definition or_js :: "jsprim \<Rightarrow> jsprim \<Rightarrow> jsprim" where
  "or_js a b = (if truthy a then a else b)"

definition num_or :: "jsnum \<Rightarrow> jsnum \<Rightarrow> jsnum" where
  "num_or a b = (if num_truthy a then a else b)"

text \<open>
  \<^verbatim>\<open>Number(v)\<close>. The numeric reading of a string is the language's own parser; it is
  taken as the parameter \<open>strnum\<close>, so that nothing proved below depends on it.
\<close>

fun ToNumber :: "(string \<Rightarrow> jsnum) \<Rightarrow> jsprim \<Rightarrow> jsnum" where
  "ToNumber strnum Undefined = NaN"
| "ToNumber strnum Null = Num 0"
| "ToNumber strnum (Bool b) = Num (if b then 1 else 0)"
| "ToNumber strnum (Number n) = n"
| "ToNumber strnum (Str s) = strnum s"

text \<open>
  \<^verbatim>\<open>s.toUpperCase()\<close>; calling it on a non-string throws. On a string of ASCII
  characters it raises the 26 small letters and leaves the rest. On any other string the
  result follows the Unicode case tables, which are the language's own: it is taken as
  the parameter \<open>upper\<close>.
\<close>

definition upper_char :: "char \<Rightarrow> char" where
  "upper_char c =
     (let n = (of_char c :: nat) in if 97 \<le> n \<and> n \<le> 122 then char_of (n - 32) else c)"

definition is_ascii :: "string \<Rightarrow> bool" where
  "is_ascii s = list_all (\<lambda>c. (of_char c :: nat) < 128) s"

definition toUpperCase :: "(string \<Rightarrow> string) \<Rightarrow> jsprim \<Rightarrow> js_error + jsprim" where
  "toUpperCase upper v =
     (case v of
        Str s \<Rightarrow> Inr (Str (if is_ascii s then map upper_char s else upper s))
      | _ \<Rightarrow> Inl TypeError)"

text \<open>
  An object literal or bag: a finite map from keys to values. A key that is absent reads
  as \<^verbatim>\<open>undefined\<close>; a key that is present with the value \<^verbatim>\<open>undefined\<close> still overrides
  in a spread, which is why the two are kept apart.
\<close>

type_synonym bag = "(string \<times> jsprim) list"

definition rd :: "bag \<Rightarrow> string \<Rightarrow> jsprim" where
  "rd b k = (case map_of b k of None \<Rightarrow> Undefined | Some v \<Rightarrow> v)"

text \<open>\<^verbatim>\<open>{ ...a, ...b }\<close>: the keys of \<open>b\<close> win.\<close>

definition spread :: "bag \<Rightarrow> bag \<Rightarrow> bag" where
  "spread a b = b @ a"

section \<open>MlClientParameters\<close>

definition DEFAULT_MANAGE_PORT :: jsnum where
  "DEFAULT_MANAGE_PORT = Num 8002"

definition DEFAULT_ADMIN_PORT :: jsnum where
  "DEFAULT_ADMIN_PORT = Num 8001"

record MlClientParameters =
  contentDb :: jsprim
  modulesDb :: jsprim
  host :: jsprim
  port :: jsnum
  managePort :: jsnum
  adminPort :: jsnum
  testPort :: jsnum
  user :: jsprim
  pwd :: jsprim
  authType :: jsprim
  apiKey :: jsprim
  accessTokenDuration :: jsprim
  ssl :: bool
  pathToCa :: jsprim
  rejectUnauthorized :: bool
  manageBasePath :: jsprim
  adminBasePath :: jsprim
  restBasePath :: jsprim
  testBasePath :: jsprim

definition normalize_authType :: "jsprim \<Rightarrow> jsprim" where
  "normalize_authType a =
     (if \<not> strict_eq a (Str ''DIGEST'') \<and> \<not> strict_eq a (Str ''BASIC'')
         \<and> \<not> strict_eq a (Str ''CLOUD'')
      then Str ''DIGEST'' else a)"

definition MlClientParameters_new :: "(string \<Rightarrow> jsnum) \<Rightarrow> bag \<Rightarrow> MlClientParameters" where
  "MlClientParameters_new strnum rawParams =
     \<lparr> contentDb = or_js (or_js (rd rawParams ''contentDb'') (rd rawParams ''documentsDb'')) (Str ''''),
       modulesDb = or_js (rd rawParams ''modulesDb'') (Str ''''),
       host = rd rawParams ''host'',
       port = ToNumber strnum (rd rawParams ''port''),
       managePort = num_or (ToNumber strnum (rd rawParams ''managePort'')) DEFAULT_MANAGE_PORT,
       adminPort = num_or (ToNumber strnum (rd rawParams ''adminPort'')) DEFAULT_ADMIN_PORT,
       testPort = ToNumber strnum (rd rawParams ''testPort''),
       user = rd rawParams ''user'',
       pwd = rd rawParams ''pwd'',
       authType = normalize_authType (rd rawParams ''authType''),
       apiKey = rd rawParams ''apiKey'',
       accessTokenDuration = rd rawParams ''accessTokenDuration'',
       ssl = truthy (rd rawParams ''ssl''),
       pathToCa = or_js (rd rawParams ''pathToCa'') (Str ''''),
       rejectUnauthorized = truthy (rd rawParams ''rejectUnauthorized''),
       manageBasePath = or_js (rd rawParams ''manageBasePath'') (Str ''''),
       adminBasePath = or_js (rd rawParams ''adminBasePath'') (Str ''''),
       restBasePath = or_js (rd rawParams ''restBasePath'') (Str ''''),
       testBasePath = or_js (rd rawParams ''testBasePath'') (Str '''') \<rparr>"

definition sameAs :: "MlClientParameters \<Rightarrow> MlClientParameters \<Rightarrow> bool" where
  "sameAs this other =
     (strict_eq (host this) (host other) \<and>
      ((isNaN (port this) \<and> isNaN (port other)) \<or> num_strict_eq (port this) (port other)) \<and>
      strict_eq (contentDb this) (contentDb other) \<and>
      strict_eq (modulesDb this) (modulesDb other) \<and>
      strict_eq (user this) (user other) \<and>
      strict_eq (pwd this) (pwd other) \<and>
      strict_eq (authType this) (authType other) \<and>
      strict_eq (apiKey this) (apiKey other) \<and>
      strict_eq (accessTokenDuration this) (accessTokenDuration other) \<and>
      strict_eq (Bool (ssl this)) (Bool (ssl other)) \<and>
      strict_eq (pathToCa this) (pathToCa other) \<and>
      strict_eq (Bool (rejectUnauthorized this)) (Bool (rejectUnauthorized other)))"

section \<open>ClientContext\<close>

text \<open>
  The library's client object is opaque; what is kept of it is the option object it was
  created from. The library's \<^verbatim>\<open>ml.createDatabaseClient\<close> is the parameter
  \<open>createDatabaseClient\<close>: given the options it returns the client or throws (it refuses
  options it cannot work with, such as missing credentials).
\<close>

record DatabaseClient =
  dc_host :: jsprim
  dc_port :: jsnum
  dc_basePath :: jsprim
  dc_user :: jsprim
  dc_password :: jsprim
  dc_database :: jsprim
  dc_authType :: jsprim
  dc_ssl :: bool
  dc_apiKey :: jsprim
  dc_accessTokenDuration :: jsprim
  dc_ca :: jsprim
  dc_rejectUnauthorized :: bool

record ClientContext =
  params :: MlClientParameters
  ca :: jsprim
  databaseClient :: DatabaseClient

definition clientOptions :: "MlClientParameters \<Rightarrow> jsprim \<Rightarrow> DatabaseClient" where
  "clientOptions p c =
     \<lparr> dc_host = host p, dc_port = port p, dc_basePath = restBasePath p,
       dc_user = user p, dc_password = pwd p, dc_database = contentDb p,
       dc_authType = authType p, dc_ssl = ssl p, dc_apiKey = apiKey p,
       dc_accessTokenDuration = accessTokenDuration p, dc_ca = c,
       dc_rejectUnauthorized = rejectUnauthorized p \<rparr>"

text \<open>
  The constructor stores the caller's object itself (\<^verbatim>\<open>this.params = params\<close>), so each
  write through \<^verbatim>\<open>this.params\<close> is a write to that object. The first component of the
  result is the caller's object after the call, the second the new context or the error
  thrown. \<open>readFileSync\<close> is the file system: the text of a file, or the message of the
  error raised when it cannot be read. The library is called last, after both writes to
  the caller's object, so they stay when it throws.
\<close>

definition ClientContext_new ::
  "(jsprim \<Rightarrow> string + string) \<Rightarrow> (string \<Rightarrow> string)
     \<Rightarrow> (DatabaseClient \<Rightarrow> js_error + DatabaseClient) \<Rightarrow> MlClientParameters
     \<Rightarrow> MlClientParameters \<times> (js_error + ClientContext)" where
  "ClientContext_new readFileSync upper createDatabaseClient params0 =
     (case toUpperCase upper (authType params0) of
        Inl e \<Rightarrow> (params0, Inl e)
      | Inr a \<Rightarrow>
          (let p1 = params0\<lparr>authType := a\<rparr> in
           (case (if truthy (pathToCa p1) \<and> \<not> strict_eq (pathToCa p1) (Str [])
                  then (case readFileSync (pathToCa p1) of
                          Inl m \<Rightarrow> Inl (Error (''Error reading CA file: '' @ m))
                        | Inr txt \<Rightarrow> Inr (Str txt))
                  else Inr Undefined) of
              Inl e \<Rightarrow> (p1, Inl e)
            | Inr c \<Rightarrow>
                (let p2 = (if \<not> truthy (contentDb p1) then p1\<lparr>contentDb := Null\<rparr> else p1)
                 in (case createDatabaseClient (clientOptions p2 c) of
                       Inl e \<Rightarrow> (p2, Inl e)
                     | Inr client \<Rightarrow>
                         (p2, Inr \<lparr> params = p2, ca = c, databaseClient = client \<rparr>))))))"

definition hasSameParamsAs :: "ClientContext \<Rightarrow> MlClientParameters \<Rightarrow> bool" where
  "hasSameParamsAs this newParams = sameAs (params this) newParams"

section \<open>ClientFactory\<close>

text \<open>
  The class declares \<^verbatim>\<open>restBasePath\<close> and \<^verbatim>\<open>ca\<close> but its constructor assigns neither;
  \<open>cf_restBasePath\<close> is kept because \<^verbatim>\<open>newRestClientParams\<close> reads it.
\<close>

record ClientFactory =
  cf_host :: jsprim
  cf_port :: jsnum
  cf_basePath :: jsprim
  cf_user :: jsprim
  cf_password :: jsprim
  cf_database :: jsprim
  cf_authType :: jsprim
  cf_ssl :: bool
  cf_rejectUnauthorized :: bool
  cf_pathToCa :: jsprim
  cf_modulesDb :: jsprim
  cf_managePort :: jsnum
  cf_adminPort :: jsnum
  cf_testPort :: jsnum
  cf_manageBasePath :: jsprim
  cf_adminBasePath :: jsprim
  cf_restBasePath :: jsprim
  cf_testBasePath :: jsprim

definition cf_normalize_authType :: "jsprim \<Rightarrow> jsprim" where
  "cf_normalize_authType a =
     (if \<not> strict_eq a (Str ''DIGEST'') \<and> \<not> strict_eq a (Str ''BASIC'')
      then Str ''DIGEST'' else a)"

definition ClientFactory_new :: "(string \<Rightarrow> jsnum) \<Rightarrow> bag \<Rightarrow> ClientFactory" where
  "ClientFactory_new strnum rawParams =
     \<lparr> cf_host = rd rawParams ''host'',
       cf_port = ToNumber strnum (rd rawParams ''port''),
       cf_basePath = or_js (rd rawParams ''basePath'') (Str []),
       cf_user = rd rawParams ''user'',
       cf_password = rd rawParams ''password'',
       cf_database = or_js (or_js (rd rawParams ''contentDb'') (rd rawParams ''documentsDb'')) (Str []),
       cf_authType = cf_normalize_authType (rd rawParams ''authType''),
       cf_ssl = truthy (rd rawParams ''ssl''),
       cf_rejectUnauthorized = truthy (rd rawParams ''rejectUnauthorized''),
       cf_pathToCa = or_js (rd rawParams ''pathToCa'') (Str []),
       cf_modulesDb = or_js (rd rawParams ''modulesDb'') (Str []),
       cf_managePort = ToNumber strnum (rd rawParams ''managePort''),
       cf_adminPort = ToNumber strnum (rd rawParams ''adminPort''),
       cf_testPort = ToNumber strnum (rd rawParams ''testPort''),
       cf_manageBasePath = or_js (rd rawParams ''manageBasePath'') (Str []),
       cf_adminBasePath = or_js (rd rawParams ''adminBasePath'') (Str []),
       cf_restBasePath = Undefined,
       cf_testBasePath = or_js (rd rawParams ''testBasePath'') (Str []) \<rparr>"

definition toMlClientParameters :: "(string \<Rightarrow> jsnum) \<Rightarrow> ClientFactory \<Rightarrow> MlClientParameters" where
  "toMlClientParameters strnum this =
     MlClientParameters_new strnum
       [(''host'', cf_host this),
        (''port'', Number (cf_port this)),
        (''basePath'', cf_basePath this),
        (''user'', cf_user this),
        (''pwd'', cf_password this),
        (''contentDb'', cf_database this),
        (''modulesDb'', cf_modulesDb this),
        (''authType'', cf_authType this),
        (''ssl'', Bool (cf_ssl this)),
        (''pathToCa'', cf_pathToCa this),
        (''rejectUnauthorized'', Bool (cf_rejectUnauthorized this))]"

text \<open>
  The three derivations differ in the port, base path and database entries of
  \<^verbatim>\<open>configParams\<close>. \<^verbatim>\<open>this.authType.toUpperCase()\<close> throws when the field is not a
  string.
\<close>

definition newRestClientParams ::
  "(string \<Rightarrow> jsnum) \<Rightarrow> (string \<Rightarrow> string) \<Rightarrow> ClientFactory \<Rightarrow> bag
     \<Rightarrow> js_error + ClientFactory" where
  "newRestClientParams strnum upper this overrides =
     (case toUpperCase upper (cf_authType this) of
        Inl e \<Rightarrow> Inl e
      | Inr a \<Rightarrow>
          Inr (ClientFactory_new strnum (spread
            [(''host'', cf_host this),
             (''user'', cf_user this),
             (''password'', cf_password this),
             (''port'', Number (cf_port this)),
             (''basePath'', cf_restBasePath this),
             (''database'', cf_database this),
             (''modulesDb'', cf_modulesDb this),
             (''authType'', a),
             (''ssl'', Bool (cf_ssl this)),
             (''pathToCa'', or_js (cf_pathToCa this) (Str [])),
             (''rejectUnauthorized'', Bool (cf_rejectUnauthorized this))]
            overrides)))"

definition newManageClientParams ::
  "(string \<Rightarrow> jsnum) \<Rightarrow> (string \<Rightarrow> string) \<Rightarrow> ClientFactory \<Rightarrow> bag
     \<Rightarrow> js_error + ClientFactory" where
  "newManageClientParams strnum upper this overrides =
     (case toUpperCase upper (cf_authType this) of
        Inl e \<Rightarrow> Inl e
      | Inr a \<Rightarrow>
          Inr (ClientFactory_new strnum (spread
            [(''host'', cf_host this),
             (''user'', cf_user this),
             (''password'', cf_password this),
             (''port'', Number (cf_managePort this)),
             (''basePath'', cf_manageBasePath this),
             (''database'', Null),
             (''modulesDb'', Null),
             (''authType'', a),
             (''ssl'', Bool (cf_ssl this)),
             (''pathToCa'', or_js (cf_pathToCa this) (Str [])),
             (''rejectUnauthorized'', Bool (cf_rejectUnauthorized this))]
            overrides)))"

definition newTestClientParams ::
  "(string \<Rightarrow> jsnum) \<Rightarrow> (string \<Rightarrow> string) \<Rightarrow> ClientFactory \<Rightarrow> bag
     \<Rightarrow> js_error + ClientFactory" where
  "newTestClientParams strnum upper this overrides =
     (case toUpperCase upper (cf_authType this) of
        Inl e \<Rightarrow> Inl e
      | Inr a \<Rightarrow>
          Inr (ClientFactory_new strnum (spread
            [(''host'', cf_host this),
             (''user'', cf_user this),
             (''password'', cf_password this),
             (''port'', Number (cf_testPort this)),
             (''basePath'', cf_testBasePath this),
             (''database'', Null),
             (''modulesDb'', Null),
             (''authType'', a),
             (''ssl'', Bool (cf_ssl this)),
             (''pathToCa'', or_js (cf_pathToCa this) (Str [])),
             (''rejectUnauthorized'', Bool (cf_rejectUnauthorized this))]
            overrides)))"

definition newMarklogicManageClient ::
  "(string \<Rightarrow> jsnum) \<Rightarrow> (string \<Rightarrow> string) \<Rightarrow> (jsprim \<Rightarrow> string + string)
     \<Rightarrow> (DatabaseClient \<Rightarrow> js_error + DatabaseClient) \<Rightarrow> ClientFactory \<Rightarrow> bag
     \<Rightarrow> js_error + ClientContext" where
  "newMarklogicManageClient strnum upper readFileSync createDatabaseClient this overrides =
     (case newManageClientParams strnum upper this overrides of
        Inl e \<Rightarrow> Inl e
      | Inr manageClientConnectionParams \<Rightarrow>
          snd (ClientContext_new readFileSync upper createDatabaseClient
                 (toMlClientParameters strnum manageClientConnectionParams)))"

section \<open>Row queries\<close>

record RowsOptions =
  queryType :: string
  format :: string

record RowsResponse =
  columns :: "jsval list"
  rows :: "jsval list"
  preRequestError :: string

text \<open>
  What \<^verbatim>\<open>sendRows\<close> does with a query: it hands a query to the library's
  \<^verbatim>\<open>rows.query\<close> (text on the DSL path, the parsed object on the JSON path), or returns
  a promise already resolved with a response, or throws.
\<close>

datatype rows_outcome =
    RowsQuery "string + jsval" RowsOptions
  | Resolved RowsResponse
  | Throws js_error

fun val_truthy :: "jsval \<Rightarrow> bool" where
  "val_truthy (Prim p) = truthy p"
| "val_truthy (Arr xs) = True"
| "val_truthy (Obj kvs) = True"

definition startsWith :: "string \<Rightarrow> char \<Rightarrow> bool" where
  "startsWith s c = (case s of [] \<Rightarrow> False | d # _ \<Rightarrow> d = c)"

text \<open>
  \<open>JSON_parse\<close> is the language's parser: the parsed value, or the message of the error
  it throws. \<^verbatim>\<open>jsonQuery\<close> and \<^verbatim>\<open>errObject\<close> both start as \<^verbatim>\<open>null\<close>, so a
  parse that returns a falsy value leaves \<^verbatim>\<open>errObject.message\<close> reading from \<^verbatim>\<open>null\<close>.
\<close>

definition sendRowsSerialized :: "(string \<Rightarrow> string + jsval) \<Rightarrow> string \<Rightarrow> string \<Rightarrow> rows_outcome" where
  "sendRowsSerialized JSON_parse actualQuery resultFormat =
     (case JSON_parse actualQuery of
        Inr jsonQuery \<Rightarrow>
          (if val_truthy jsonQuery
           then RowsQuery (Inr jsonQuery) \<lparr> queryType = ''json'', format = resultFormat \<rparr>
           else Throws TypeError)
      | Inl message \<Rightarrow>
          Resolved \<lparr> columns = [], rows = [], preRequestError = message \<rparr>)"

definition sendRows :: "(string \<Rightarrow> string + jsval) \<Rightarrow> string \<Rightarrow> string \<Rightarrow> rows_outcome" where
  "sendRows JSON_parse actualQuery resultFormat =
     (if startsWith actualQuery (CHR ''{'')
      then sendRowsSerialized JSON_parse actualQuery resultFormat
      else RowsQuery (Inl actualQuery) \<lparr> queryType = ''dsl'', format = resultFormat \<rparr>)"

section \<open>Property access and string conversion\<close>

text \<open>
  \<^verbatim>\<open>v[name]\<close> for a property name that is not an array index, and \<^verbatim>\<open>v[i]\<close> for an
  index. Reading from \<^verbatim>\<open>undefined\<close> or \<^verbatim>\<open>null\<close> throws; a property that a value
  does not have reads as \<^verbatim>\<open>undefined\<close>.
\<close>

definition digit :: "nat \<Rightarrow> char" where
  "digit d = char_of (48 + d)"

fun show_nat :: "nat \<Rightarrow> string" where
  "show_nat n = (if n < 10 then [digit n] else show_nat (n div 10) @ [digit (n mod 10)])"

declare show_nat.simps [simp del]

definition show_int :: "int \<Rightarrow> string" where
  "show_int i = (if i < 0 then CHR ''-'' # show_nat (nat (- i)) else show_nat (nat i))"

fun getprop :: "jsval \<Rightarrow> string \<Rightarrow> js_error + jsval" where
  "getprop (Prim Undefined) k = Inl TypeError"
| "getprop (Prim Null) k = Inl TypeError"
| "getprop (Prim (Str s)) k =
     Inr (Prim (if k = ''length'' then Number (Num (int (length s))) else Undefined))"
| "getprop (Prim p) k = Inr (Prim Undefined)"
| "getprop (Arr xs) k =
     Inr (Prim (if k = ''length'' then Number (Num (int (length xs))) else Undefined))"
| "getprop (Obj kvs) k = Inr (case map_of kvs k of None \<Rightarrow> Prim Undefined | Some v \<Rightarrow> v)"

fun idx :: "jsval \<Rightarrow> nat \<Rightarrow> js_error + jsval" where
  "idx (Prim Undefined) i = Inl TypeError"
| "idx (Prim Null) i = Inl TypeError"
| "idx (Prim (Str s)) i = Inr (Prim (if i < length s then Str [s ! i] else Undefined))"
| "idx (Prim p) i = Inr (Prim Undefined)"
| "idx (Arr xs) i = Inr (if i < length xs then xs ! i else Prim Undefined)"
| "idx (Obj kvs) i = Inr (case map_of kvs (show_nat i) of None \<Rightarrow> Prim Undefined | Some v \<Rightarrow> v)"

text \<open>
  \<^verbatim>\<open>`${v}`\<close>: the string a template literal puts in place of a value. An integer
  below \<^verbatim>\<open>1e21\<close> in magnitude is printed digit by digit; from there on the language
  prints the exponent form of the nearest double, taken as the parameter \<open>expform\<close>.
\<close>

fun num_String :: "(int \<Rightarrow> string) \<Rightarrow> jsnum \<Rightarrow> string" where
  "num_String expform NaN = ''NaN''"
| "num_String expform (Num n) =
     (if \<bar>n\<bar> < 1000000000000000000000 then show_int n else expform n)"

fun prim_String :: "(int \<Rightarrow> string) \<Rightarrow> jsprim \<Rightarrow> string" where
  "prim_String expform Undefined = ''undefined''"
| "prim_String expform Null = ''null''"
| "prim_String expform (Bool b) = (if b then ''true'' else ''false'')"
| "prim_String expform (Number n) = num_String expform n"
| "prim_String expform (Str s) = s"

fun join :: "string \<Rightarrow> string list \<Rightarrow> string" where
  "join sep [] = []"
| "join sep [s] = s"
| "join sep (s # t # ss) = s @ sep @ join sep (t # ss)"

fun val_String :: "(int \<Rightarrow> string) \<Rightarrow> jsval \<Rightarrow> string" where
  "val_String expform (Prim p) = prim_String expform p"
| "val_String expform (Arr xs) =
     join '',''
       (map (\<lambda>x. if x = Prim Undefined \<or> x = Prim Null then [] else val_String expform x) xs)"
| "val_String expform (Obj kvs) = ''[object Object]''"

section \<open>sendXQuery\<close>

text \<open>
  A request handed to the library's \<^verbatim>\<open>xqueryEval\<close>: the wrapper query and its three
  external variables.
\<close>

record xq_request =
  xq_query :: string
  ext_actualQuery :: string
  ext_contentDb :: jsprim
  ext_modulesDb :: jsprim

text \<open>
  The server is a script of answers: the request sent when \<open>n\<close> requests have been sent
  before it is answered by \<open>remote n\<close>, an error object on the left or the result on the
  right. Every function that talks to the server takes the log of requests sent so far
  and returns it extended.
\<close>

type_synonym xq_remote = "nat \<Rightarrow> jsval + jsval"

definition sendXQuery ::
  "xq_remote \<Rightarrow> ClientContext \<Rightarrow> string \<Rightarrow> string \<Rightarrow> xq_request list
     \<Rightarrow> (jsval + jsval) \<times> xq_request list" where
  "sendXQuery remote dbClientContext actualQuery prefix log =
     (let query =
            ''xquery version \"1.0-ml\";'' @
            ''declare variable $actualQuery as xs:string external;'' @
            ''declare variable $contentDb as xs:string external;'' @
            ''declare variable $modulesDb as xs:string external;'' @
            ''let $options := '' @
            ''<options xmlns=\"xdmp:eval\">'' @
            (if truthy (contentDb (params dbClientContext))
             then ''<database>{xdmp:database($contentDb)}</database>'' else []) @
            (if truthy (modulesDb (params dbClientContext))
             then ''<modules>{xdmp:database($modulesDb)}</modules>'' else []) @
            ''</options>'' @
            ''return '' @ prefix @ '':eval($actualQuery, (), $options)''
      in (remote (length log),
          log @ [\<lparr> xq_query = query, ext_actualQuery = actualQuery,
                    ext_contentDb = contentDb (params dbClientContext),
                    ext_modulesDb = modulesDb (params dbClientContext) \<rparr>]))"

section \<open>XqyRuntime\<close>

datatype RunTimeState = Shutdown | Launched | Attached | ErrorState

record XqyBreakPoint =
  uri :: string
  line :: jsnum
  column :: jsprim
  condition :: jsprim
  expr :: jsval

record XqyRuntime =
  xq_mlClient :: ClientContext
  xq_rid :: jsval
  xq_runTimeState :: RunTimeState

text \<open>
  A runtime as the constructor and \<^verbatim>\<open>initialize\<close> leave it. The runtime names its
  client class \<^verbatim>\<open>MarklogicClient\<close>; what it holds is what \<^verbatim>\<open>sendXQuery\<close> takes, a
  \<^verbatim>\<open>ClientContext\<close>.
\<close>

definition XqyRuntime_new :: "ClientContext \<Rightarrow> XqyRuntime" where
  "XqyRuntime_new client =
     \<lparr> xq_mlClient = client, xq_rid = Prim (Str []), xq_runTimeState = Shutdown \<rparr>"

text \<open>
  Each operation returns the runtime after the call, how the returned promise settles,
  and the log. The error callback of \<^verbatim>\<open>launchWithDebugEval\<close> returns normally, so the
  promise resolves on a failed dispatch too; the success callback throws when the result
  has no first row to read.
\<close>

definition xq_launchWithDebugEval ::
  "xq_remote \<Rightarrow> XqyRuntime \<Rightarrow> string \<Rightarrow> xq_request list
     \<Rightarrow> XqyRuntime \<times> (js_error + unit) \<times> xq_request list" where
  "xq_launchWithDebugEval remote this query log =
     (case sendXQuery remote (xq_mlClient this) query ''dbg'' log of
        (Inr fulfill, log') \<Rightarrow>
          (case idx fulfill 0 of
             Inl e \<Rightarrow> (this, Inl e, log')
           | Inr row \<Rightarrow>
               (case getprop row ''value'' of
                  Inl e \<Rightarrow> (this, Inl e, log')
                | Inr v \<Rightarrow> (this\<lparr>xq_rid := v, xq_runTimeState := Launched\<rparr>, Inr (), log')))
      | (Inl error, log') \<Rightarrow> (this\<lparr>xq_runTimeState := ErrorState\<rparr>, Inr (), log'))"

definition xq_terminate ::
  "xq_remote \<Rightarrow> XqyRuntime \<Rightarrow> xq_request list
     \<Rightarrow> XqyRuntime \<times> (jsval + jsval) \<times> xq_request list" where
  "xq_terminate remote this log =
     (case sendXQuery remote (xq_mlClient this) ''dbg:disconnent(xdmp:server())'' ''xdmp'' log of
        (r, log') \<Rightarrow> (this, r, log'))"

text \<open>
  The breakpoint is an object the caller shares with the runtime; the first component of
  each result is that object after the call. \<^verbatim>\<open>findBreakPointExpr\<close> passes only a
  success callback, so a failed lookup rejects, and so does a callback that throws.
  \<open>expform\<close> is the printing of large numbers that the template literals need.
\<close>

definition findBreakPointExpr ::
  "(int \<Rightarrow> string) \<Rightarrow> xq_remote \<Rightarrow> XqyRuntime \<Rightarrow> XqyBreakPoint \<Rightarrow> xq_request list
     \<Rightarrow> XqyBreakPoint \<times> (js_error + jsval) \<times> xq_request list" where
  "findBreakPointExpr expform remote this location log =
     (case sendXQuery remote (xq_mlClient this)
             (''dbg:line('' @ val_String expform (xq_rid this) @ '', '' @ uri location @ '', ''
                @ num_String expform (line location) @ '')'') ''xdmp'' log of
        (Inl error, log') \<Rightarrow> (location, Inl (Rejected error), log')
      | (Inr fulfill, log') \<Rightarrow>
          (case getprop fulfill ''value'' of
             Inl e \<Rightarrow> (location, Inl e, log')
           | Inr vs \<Rightarrow>
               (case idx vs 0 of
                  Inl e \<Rightarrow> (location, Inl e, log')
                | Inr v \<Rightarrow> (location\<lparr>expr := v\<rparr>, Inr v, log'))))"

text \<open>
  With the id unresolved, the set (or clear) request is sent from the \<^verbatim>\<open>then\<close> callback
  and not awaited; with the id at hand both callbacks of the request only print.
\<close>

definition xq_setBreakPoint ::
  "(int \<Rightarrow> string) \<Rightarrow> xq_remote \<Rightarrow> XqyRuntime \<Rightarrow> XqyBreakPoint \<Rightarrow> xq_request list
     \<Rightarrow> XqyBreakPoint \<times> (js_error + unit) \<times> xq_request list" where
  "xq_setBreakPoint expform remote this location log =
     (if \<not> val_truthy (expr location)
      then (case findBreakPointExpr expform remote this location log of
              (location', Inl e, log') \<Rightarrow> (location', Inl e, log')
            | (location', Inr v, log') \<Rightarrow>
                (location', Inr (),
                 snd (sendXQuery remote (xq_mlClient this)
                        (''dbg:break('' @ val_String expform (xq_rid this) @ '', '' @ val_String expform v @ '')'')
                        ''xdmp'' log')))
      else (location, Inr (),
            snd (sendXQuery remote (xq_mlClient this)
                   (''dbg:break('' @ val_String expform (xq_rid this) @ '', ''
                      @ val_String expform (expr location) @ '')'')
                   ''xdmp'' log)))"

definition xq_removeBreakPoint ::
  "(int \<Rightarrow> string) \<Rightarrow> xq_remote \<Rightarrow> XqyRuntime \<Rightarrow> XqyBreakPoint \<Rightarrow> xq_request list
     \<Rightarrow> XqyBreakPoint \<times> (js_error + unit) \<times> xq_request list" where
  "xq_removeBreakPoint expform remote this location log =
     (if \<not> val_truthy (expr location)
      then (case findBreakPointExpr expform remote this location log of
              (location', Inl e, log') \<Rightarrow> (location', Inl e, log')
            | (location', Inr v, log') \<Rightarrow>
                (location', Inr (),
                 snd (sendXQuery remote (xq_mlClient this)
                        (''dbg:clear('' @ val_String expform (xq_rid this) @ '', '' @ val_String expform v @ '')'')
                        ''xdmp'' log')))
      else (location, Inr (),
            snd (sendXQuery remote (xq_mlClient this)
                   (''dbg:clear('' @ val_String expform (xq_rid this) @ '', ''
                      @ val_String expform (expr location) @ '')'')
                   ''xdmp'' log)))"

section \<open>MLRuntime\<close>

record http_request =
  http_method :: string
  http_url :: string
  http_user :: string
  http_pass :: string
  http_headers :: "(string \<times> string) list"
  http_body :: "string option"

record MLRuntime =
  ml_hostName :: string
  ml_username :: string
  ml_password :: string
  ml_rid :: string
  ml_runTimeState :: RunTimeState

definition MLRuntime_new :: MLRuntime where
  "MLRuntime_new =
     \<lparr> ml_hostName = [], ml_username = [], ml_password = [], ml_rid = [],
       ml_runTimeState = Shutdown \<rparr>"

text \<open>
  The HTTP server answers the request sent when \<open>n\<close> requests have been sent before it
  with \<open>remote n\<close>: the error the promise rejects with, or the response body.
\<close>

type_synonym http_remote = "nat \<Rightarrow> jsval + string"

definition sendMLdebugRequestPOST ::
  "http_remote \<Rightarrow> MLRuntime \<Rightarrow> string \<Rightarrow> string option \<Rightarrow> http_request list
     \<Rightarrow> (jsval + string) \<times> http_request list" where
  "sendMLdebugRequestPOST remote this module body log =
     (remote (length log),
      log @ [\<lparr> http_method = ''POST'',
                http_url = ''http://'' @ ml_hostName this @ '':8002/jsdbg/v1/'' @ module @ ''/''
                             @ ml_rid this,
                http_user = ml_username this, http_pass = ml_password this,
                http_headers = [],
                http_body = (case body of None \<Rightarrow> None
                             | Some b \<Rightarrow> if b \<noteq> [] then Some b else None) \<rparr>])"

text \<open>\<open>escape\<close> is the library's \<^verbatim>\<open>querystring.escape\<close>.\<close>

definition sendMLdebugEvalRequest ::
  "(string \<Rightarrow> string) \<Rightarrow> http_remote \<Rightarrow> MLRuntime \<Rightarrow> string \<Rightarrow> http_request list
     \<Rightarrow> (jsval + string) \<times> http_request list" where
  "sendMLdebugEvalRequest escape remote this script log =
     (remote (length log),
      log @ [\<lparr> http_method = ''POST'',
                http_url = ''http://'' @ ml_hostName this @ '':8002/jsdbg/v1/eval'',
                http_user = ml_username this, http_pass = ml_password this,
                http_headers = [(''Content-type'', ''application/x-www-form-urlencoded'')],
                http_body = Some (''javascript='' @ escape script) \<rparr>])"

text \<open>
  \<open>readFile\<close> is the file system, as for the CA file. A script that cannot be read makes
  \<^verbatim>\<open>launchWithDebugEval\<close> throw before it touches the state.
\<close>

definition ml_launchWithDebugEval ::
  "(string \<Rightarrow> string + string) \<Rightarrow> (string \<Rightarrow> string) \<Rightarrow> http_remote \<Rightarrow> MLRuntime \<Rightarrow> string
     \<Rightarrow> http_request list \<Rightarrow> MLRuntime \<times> (js_error + string) \<times> http_request list" where
  "ml_launchWithDebugEval readFile escape remote this scriptLocation log =
     (case readFile scriptLocation of
        Inl m \<Rightarrow> (this, Inl (Error m), log)
      | Inr script \<Rightarrow>
          (let this' = this\<lparr>ml_runTimeState := Launched\<rparr> in
           (case sendMLdebugEvalRequest escape remote this' script log of
              (Inl e, log') \<Rightarrow> (this', Inl (Rejected e), log')
            | (Inr body, log') \<Rightarrow> (this', Inr body, log'))))"

definition ml_terminate ::
  "http_remote \<Rightarrow> MLRuntime \<Rightarrow> http_request list
     \<Rightarrow> MLRuntime \<times> (jsval + string) \<times> http_request list" where
  "ml_terminate remote this log =
     (case sendMLdebugRequestPOST remote this ''request-cancel'' (Some ''server-name=TaskServer'') log of
        (r, log') \<Rightarrow> (this, r, log'))"

definition ml_wait ::
  "http_remote \<Rightarrow> MLRuntime \<Rightarrow> http_request list \<Rightarrow> (jsval + string) \<times> http_request list" where
  "ml_wait remote this log = sendMLdebugRequestPOST remote this ''wait'' (Some ''time-out=5'') log"

text \<open>
  \<^verbatim>\<open>waitTillPaused\<close> calls itself for as long as the server answers with the empty
  string, so against a server that never reports a pause it never settles: the value
  \<open>None\<close>.
\<close>

partial_function (option) waitTillPaused ::
  "http_remote \<Rightarrow> MLRuntime \<Rightarrow> http_request list
     \<Rightarrow> ((jsval + string) \<times> http_request list) option" where
  "waitTillPaused remote this log =
     (case ml_wait remote this log of
        (Inl e, log') \<Rightarrow> Some (Inl e, log')
      | (Inr result, log') \<Rightarrow>
          (if result = [] then waitTillPaused remote this log' else Some (Inr result, log')))"

declare waitTillPaused.simps [code]

section \<open>Server discovery\<close>

record MlxprsQuickPickItem =
  label :: string
  description :: string
  detail :: string

text \<open>
  \<^verbatim>\<open>filterJsServerByConnectedStatus\<close> first walks the choices, building a manage client
  and sending one probe for each (\<open>sendProbes\<close>; a client that cannot be built throws out
  of the loop), and then awaits all the probes together. The probe of choice \<open>i\<close> is
  answered by \<open>responses i\<close>. The answers arrive in an order of their own, \<open>arrival\<close>, the
  indices of the choices (each of them once) in the order their probes settle, and
  \<open>settle\<close> runs the two callbacks in that order: the first keeps the choice when the body is the required
  string, the second prints \<^verbatim>\<open>error.body.errorResponse\<close>. A callback that throws
  rejects its probe, and with it the promise of all of them.
\<close>

fun sendProbes ::
  "(string \<Rightarrow> jsnum) \<Rightarrow> (string \<Rightarrow> string) \<Rightarrow> (jsprim \<Rightarrow> string + string)
     \<Rightarrow> (DatabaseClient \<Rightarrow> js_error + DatabaseClient) \<Rightarrow> ClientFactory
     \<Rightarrow> MlxprsQuickPickItem list \<Rightarrow> js_error + (ClientContext \<times> string) list" where
  "sendProbes strnum upper readFileSync createDatabaseClient clientFactory [] = Inr []"
| "sendProbes strnum upper readFileSync createDatabaseClient clientFactory (choice # choices) =
     (case newMarklogicManageClient strnum upper readFileSync createDatabaseClient
             clientFactory [] of
        Inl e \<Rightarrow> Inl e
      | Inr manageClient \<Rightarrow>
          (case sendProbes strnum upper readFileSync createDatabaseClient clientFactory choices of
             Inl e \<Rightarrow> Inl e
           | Inr requests \<Rightarrow>
               Inr ((manageClient, ''/jsdbg/v1/connected/'' @ label choice) # requests)))"

fun settle ::
  "string \<Rightarrow> (MlxprsQuickPickItem \<times> (jsval + jsval)) list \<Rightarrow> MlxprsQuickPickItem list
     \<Rightarrow> js_error + MlxprsQuickPickItem list" where
  "settle requiredResponse [] filteredChoices = Inr filteredChoices"
| "settle requiredResponse ((choice, Inr response) # rest) filteredChoices =
     settle requiredResponse rest
       (if response = Prim (Str requiredResponse) then filteredChoices @ [choice]
        else filteredChoices)"
| "settle requiredResponse ((choice, Inl error) # rest) filteredChoices =
     (case getprop error ''body'' of
        Inl e \<Rightarrow> Inl e
      | Inr body \<Rightarrow>
          (case getprop body ''errorResponse'' of
             Inl e \<Rightarrow> Inl e
           | Inr printed \<Rightarrow> settle requiredResponse rest filteredChoices))"

definition filterJsServerByConnectedStatus ::
  "(string \<Rightarrow> jsnum) \<Rightarrow> (string \<Rightarrow> string) \<Rightarrow> (jsprim \<Rightarrow> string + string)
     \<Rightarrow> (DatabaseClient \<Rightarrow> js_error + DatabaseClient) \<Rightarrow> (nat \<Rightarrow> jsval + jsval) \<Rightarrow> nat list
     \<Rightarrow> ClientFactory \<Rightarrow> MlxprsQuickPickItem list \<Rightarrow> string
     \<Rightarrow> js_error + MlxprsQuickPickItem list" where
  "filterJsServerByConnectedStatus strnum upper readFileSync createDatabaseClient responses arrival
       clientFactory choices requiredResponse =
     (case sendProbes strnum upper readFileSync createDatabaseClient clientFactory choices of
        Inl e \<Rightarrow> Inl e
      | Inr requests \<Rightarrow>
          settle requiredResponse (map (\<lambda>i. (choices ! i, responses i)) arrival) [])"

section \<open>Sample inputs\<close>

text \<open>
  The concrete surroundings the examples below run in: a reader of numeric strings, an
  upper-casing of non-ASCII strings and a printing of large numbers that are never asked
  (no example passes a number as a string, a non-ASCII string or a number from
  \<^verbatim>\<open>1e21\<close> up), a file system without files, the identity for
  \<^verbatim>\<open>querystring.escape\<close>, a parser that rejects every text, and a client library that
  insists on credentials: an API key for the CLOUD scheme, a user and a password for the
  others.
\<close>

definition strnum0 :: "string \<Rightarrow> jsnum" where
  "strnum0 s = NaN"

definition upper0 :: "string \<Rightarrow> string" where
  "upper0 s = s"

definition expform0 :: "int \<Rightarrow> string" where
  "expform0 n = ''1e+21''"

definition credentials_checked :: "DatabaseClient \<Rightarrow> js_error + DatabaseClient" where
  "credentials_checked options =
     (if dc_authType options = Str ''CLOUD''
      then (if truthy (dc_apiKey options) then Inr options
            else Inl (Error ''apiKey needed for MarkLogic cloud authentication.''))
      else (if dc_user options \<in> {Undefined, Null} \<or> dc_password options \<in> {Undefined, Null}
            then Inl (Error ''cannot create client without user or password'')
            else Inr options))"

definition no_files :: "jsprim \<Rightarrow> string + string" where
  "no_files path = Inl ''ENOENT: no such file or directory''"

definition one_script :: "string \<Rightarrow> string + string" where
  "one_script path =
     (if path = ''/tmp/script.sjs'' then Inr ''1 + 1''
      else Inl ''ENOENT: no such file or directory'')"

definition escape0 :: "string \<Rightarrow> string" where
  "escape0 s = s"

definition reject_json :: "string \<Rightarrow> string + jsval" where
  "reject_json s = Inl ''Unexpected end of JSON input''"

text \<open>A parameter object for a local server, and the same one with a NaN token duration.\<close>

definition local_params :: MlClientParameters where
  "local_params =
     MlClientParameters_new strnum0
       [(''host'', Str ''localhost''), (''port'', Number (Num 8000)),
        (''user'', Str ''admin''), (''pwd'', Str ''admin''), (''authType'', Str ''DIGEST'')]"

definition nan_duration_params :: MlClientParameters where
  "nan_duration_params =
     MlClientParameters_new strnum0
       [(''host'', Str ''localhost''), (''port'', Number (Num 8000)),
        (''user'', Str ''admin''), (''pwd'', Str ''admin''), (''authType'', Str ''DIGEST''),
        (''accessTokenDuration'', Number NaN)]"

definition local_factory :: ClientFactory where
  "local_factory =
     ClientFactory_new strnum0
       [(''host'', Str ''localhost''), (''port'', Number (Num 8000)),
        (''restBasePath'', Str ''/rest''),
        (''managePort'', Number (Num 8002)), (''manageBasePath'', Str ''/manage''),
        (''testPort'', Number (Num 8054)),
        (''user'', Str ''admin''), (''password'', Str ''admin''),
        (''contentDb'', Str ''Documents''), (''modulesDb'', Str ''Modules''),
        (''authType'', Str ''DIGEST''), (''ssl'', Bool False),
        (''pathToCa'', Str []), (''rejectUnauthorized'', Bool True)]"

text \<open>No field of a parameter object that \<^verbatim>\<open>sameAs\<close> compares with \<^verbatim>\<open>===\<close> is NaN.\<close>

definition nan_free :: "MlClientParameters \<Rightarrow> bool" where
  "nan_free p =
     (host p \<noteq> Number NaN \<and> contentDb p \<noteq> Number NaN \<and> modulesDb p \<noteq> Number NaN \<and>
      user p \<noteq> Number NaN \<and> pwd p \<noteq> Number NaN \<and> authType p \<noteq> Number NaN \<and>
      apiKey p \<noteq> Number NaN \<and> accessTokenDuration p \<noteq> Number NaN \<and>
      pathToCa p \<noteq> Number NaN)"

text \<open>
  Mock servers. \<open>rows42\<close> answers every query with one result row whose value is 42, the
  shape in which \<^verbatim>\<open>xqueryEval\<close> delivers a result and in which
  \<^verbatim>\<open>launchWithDebugEval\<close> and \<^verbatim>\<open>getConnectedServers\<close> read it; \<open>object42\<close> answers
  with an object whose \<^verbatim>\<open>value\<close> is an array instead. \<open>refusing\<close> fails every request
  with an error object that has a message and no body, as a refused connection does.
  \<open>http_rid\<close> answers every request with a request id, and \<open>three_empties\<close> answers three
  polls with the empty string and the fourth with a payload.
\<close>

definition rows42 :: xq_remote where
  "rows42 n = Inr (Arr [Obj [(''format'', Prim (Str ''text'')),
                             (''datatype'', Prim (Str ''integer'')),
                             (''value'', Prim (Number (Num 42)))]])"

definition refusing :: "nat \<Rightarrow> jsval + jsval" where
  "refusing n = Inl (Obj [(''message'', Prim (Str ''connect ECONNREFUSED 127.0.0.1:8002''))])"

definition http_refusing :: http_remote where
  "http_refusing n = Inl (Obj [(''message'', Prim (Str ''connect ECONNREFUSED 127.0.0.1:8002''))])"

definition object42 :: xq_remote where
  "object42 n = Inr (Obj [(''value'', Arr [Prim (Number (Num 42))])])"

definition http_rid :: http_remote where
  "http_rid n = Inr ''7269983682075137874''"

definition three_empties :: http_remote where
  "three_empties n = (if n < 3 then Inr [] else Inr ''{\"requestState\":\"stopped\"}'')"

definition local_context :: ClientContext where
  "local_context =
     \<lparr> params = local_params\<lparr>contentDb := Null\<rparr>, ca = Undefined,
       databaseClient = clientOptions (local_params\<lparr>contentDb := Null\<rparr>) Undefined \<rparr>"

definition documents_params :: MlClientParameters where
  "documents_params = local_params\<lparr>contentDb := Str ''Documents''\<rparr>"

definition launched_runtime :: XqyRuntime where
  "launched_runtime =
     \<lparr> xq_mlClient = local_context, xq_rid = Prim (Number (Num 42)),
       xq_runTimeState = Launched \<rparr>"

definition main_breakpoint :: XqyBreakPoint where
  "main_breakpoint =
     \<lparr> uri = ''/main.xqy'', line = Num 3, column = Undefined, condition = Undefined,
       expr = Prim Undefined \<rparr>"

definition local_item :: MlxprsQuickPickItem where
  "local_item = \<lparr> label = ''App'', description = ''17'', detail = ''App on localhost:8010'' \<rparr>"

section \<open>Auxiliary facts\<close>

lemma strict_eq_sym: "strict_eq a b = strict_eq b a"
  by (auto simp: strict_eq_def)

lemma num_strict_eq_sym: "num_strict_eq a b = num_strict_eq b a"
  by (auto simp: num_strict_eq_def)

lemma toUpperCase_recognized:
  "a \<in> {Str ''DIGEST'', Str ''BASIC'', Str ''CLOUD''} \<Longrightarrow> toUpperCase upper a = Inr a"
  by (auto simp: toUpperCase_def upper_char_def is_ascii_def)

lemma upper_basic: "is_ascii ''basic''" "map upper_char ''basic'' = ''BASIC''"
  by code_simp+

lemma toUpperCase_basic: "toUpperCase upper (Str ''basic'') = Inr (Str ''BASIC'')"
  unfolding toUpperCase_def by (simp only: upper_basic jsprim.case if_True)

lemma show_int_42: "show_int 42 = ''42''"
  by code_simp

lemma show_int_3: "show_int 3 = ''3''"
  by code_simp

lemma local_params_fields:
  "host local_params = Str ''localhost''" "port local_params = Num 8000"
  "contentDb local_params = Str []" "modulesDb local_params = Str []"
  "user local_params = Str ''admin''" "pwd local_params = Str ''admin''"
  "authType local_params = Str ''DIGEST''" "apiKey local_params = Undefined"
  "accessTokenDuration local_params = Undefined" "pathToCa local_params = Str []"
  by (simp_all add: local_params_def MlClientParameters_new_def rd_def or_js_def
      normalize_authType_def strict_eq_def)

section \<open>Equality of parameter objects\<close>

text \<open>
  C5. \<^verbatim>\<open>sameAs\<close> is symmetric. It holds between an object and itself exactly when none
  of the fields it compares with \<^verbatim>\<open>===\<close> (all of the compared fields but the port) is
  not-a-number. Two objects that agree on every compared field, none of them NaN apart
  from the port, are the same whatever their other fields hold: two ports that are both
  NaN count as equal, and the manage, admin and test ports and the four base paths are
  never looked at.
\<close>

theorem sameAs_properties:
  "sameAs a b = sameAs b a
   \<and> sameAs a a = nan_free a
   \<and> (nan_free a \<and> host a = host b \<and> port a = port b \<and> contentDb a = contentDb b
        \<and> modulesDb a = modulesDb b \<and> user a = user b \<and> pwd a = pwd b
        \<and> authType a = authType b \<and> apiKey a = apiKey b
        \<and> accessTokenDuration a = accessTokenDuration b \<and> ssl a = ssl b
        \<and> pathToCa a = pathToCa b \<and> rejectUnauthorized a = rejectUnauthorized b
      \<longrightarrow> sameAs a b)
   \<and> sameAs (a\<lparr>managePort := mp, adminPort := ap, testPort := tp, manageBasePath := mb,
              adminBasePath := ab, restBasePath := rb, testBasePath := tb\<rparr>) b = sameAs a b"
proof (intro conjI impI)
  show "sameAs a b = sameAs b a"
    unfolding sameAs_def
    by (subst (1 2 3 4 5 6 7 8 9 10 11) strict_eq_sym, subst num_strict_eq_sym) blast
  show "sameAs a a = nan_free a"
    by (cases "port a")
       (auto simp: sameAs_def nan_free_def strict_eq_def num_strict_eq_def isNaN_def)
  show "sameAs a b"
    if "nan_free a \<and> host a = host b \<and> port a = port b \<and> contentDb a = contentDb b
        \<and> modulesDb a = modulesDb b \<and> user a = user b \<and> pwd a = pwd b
        \<and> authType a = authType b \<and> apiKey a = apiKey b
        \<and> accessTokenDuration a = accessTokenDuration b \<and> ssl a = ssl b
        \<and> pathToCa a = pathToCa b \<and> rejectUnauthorized a = rejectUnauthorized b"
    using that
    by (cases "port b")
       (auto simp: sameAs_def nan_free_def strict_eq_def num_strict_eq_def isNaN_def)
  show "sameAs (a\<lparr>managePort := mp, adminPort := ap, testPort := tp, manageBasePath := mb,
              adminBasePath := ab, restBasePath := rb, testBasePath := tb\<rparr>) b = sameAs a b"
    by (simp add: sameAs_def)
qed

text \<open>
  The local parameter object is the same as itself, and stays the same as a copy whose
  port is NaN on both sides and whose REST base path differs.
\<close>

theorem sameAs_properties_witness:
  "nan_free local_params
   \<and> sameAs local_params local_params
   \<and> sameAs (local_params\<lparr>port := NaN\<rparr>)
            (local_params\<lparr>port := NaN, restBasePath := Str ''/v1''\<rparr>)"
proof -
  let ?a = "local_params\<lparr>port := NaN\<rparr>"
  let ?b = "local_params\<lparr>port := NaN, restBasePath := Str ''/v1''\<rparr>"
  have nf: "nan_free local_params"
    by (simp add: nan_free_def local_params_fields)
  have nf': "nan_free ?a"
    by (simp add: nan_free_def local_params_fields)
  have eqs: "host ?a = host ?b \<and> port ?a = port ?b \<and> contentDb ?a = contentDb ?b
        \<and> modulesDb ?a = modulesDb ?b \<and> user ?a = user ?b \<and> pwd ?a = pwd ?b
        \<and> authType ?a = authType ?b \<and> apiKey ?a = apiKey ?b
        \<and> accessTokenDuration ?a = accessTokenDuration ?b \<and> ssl ?a = ssl ?b
        \<and> pathToCa ?a = pathToCa ?b \<and> rejectUnauthorized ?a = rejectUnauthorized ?b"
    by simp
  from nf sameAs_properties [where a = local_params and b = local_params]
  have r: "sameAs local_params local_params" by blast
  from nf' eqs sameAs_properties [where a = ?a and b = ?b]
  have n: "sameAs ?a ?b" by blast
  from nf r n show ?thesis by blast
qed

text \<open>
  As stated for every object, reflexivity fails: a parameter object whose token duration
  is NaN is not the same as itself.
\<close>

theorem sameAs_not_reflexive: "\<not> sameAs nan_duration_params nan_duration_params"
  by (simp add: sameAs_def nan_duration_params_def MlClientParameters_new_def rd_def strict_eq_def)

section \<open>The auth scheme\<close>

text \<open>
  C6. Both constructors leave a recognized auth scheme as it is and turn every other
  value into DIGEST, so the scheme is always one of DIGEST, BASIC, CLOUD; what differs is
  the recognized set: DIGEST, BASIC and CLOUD for \<^verbatim>\<open>MlClientParameters\<close>, DIGEST and BASIC
  alone for \<^verbatim>\<open>ClientFactory\<close>, which turns CLOUD into DIGEST.
\<close>

theorem authType_normalized:
  "authType (MlClientParameters_new strnum rawParams) =
     (if rd rawParams ''authType'' \<in> {Str ''DIGEST'', Str ''BASIC'', Str ''CLOUD''}
      then rd rawParams ''authType'' else Str ''DIGEST'')
   \<and> cf_authType (ClientFactory_new strnum rawParams) =
     (if rd rawParams ''authType'' \<in> {Str ''DIGEST'', Str ''BASIC''}
      then rd rawParams ''authType'' else Str ''DIGEST'')
   \<and> authType (MlClientParameters_new strnum rawParams)
       \<in> {Str ''DIGEST'', Str ''BASIC'', Str ''CLOUD''}
   \<and> cf_authType (ClientFactory_new strnum rawParams) \<in> {Str ''DIGEST'', Str ''BASIC''}"
  by (simp add: MlClientParameters_new_def ClientFactory_new_def normalize_authType_def
      cf_normalize_authType_def strict_eq_def)

theorem authType_normalized_witness:
  "authType (MlClientParameters_new strnum0 [(''authType'', Str ''CLOUD'')]) = Str ''CLOUD''
   \<and> authType (MlClientParameters_new strnum0 [(''authType'', Str ''digest'')]) = Str ''DIGEST''
   \<and> cf_authType (ClientFactory_new strnum0 [(''authType'', Str ''BASIC'')]) = Str ''BASIC''
   \<and> cf_authType (ClientFactory_new strnum0 [(''authType'', Str ''CLOUD'')]) = Str ''DIGEST''"
  using authType_normalized [where strnum = strnum0 and rawParams = "[(''authType'', Str ''CLOUD'')]"]
    authType_normalized [where strnum = strnum0 and rawParams = "[(''authType'', Str ''digest'')]"]
    authType_normalized [where strnum = strnum0 and rawParams = "[(''authType'', Str ''BASIC'')]"]
  by (simp add: rd_def)

text \<open>The factory does not preserve CLOUD.\<close>

theorem ClientFactory_drops_CLOUD:
  "cf_authType (ClientFactory_new strnum0 [(''authType'', Str ''CLOUD'')]) \<noteq> Str ''CLOUD''"
  by (simp add: ClientFactory_new_def cf_normalize_authType_def strict_eq_def rd_def)

section \<open>What the context constructor does to its argument\<close>

text \<open>
  The constructor writes to two fields of its argument and to no other. The auth scheme
  is replaced by its upper-case form (which leaves DIGEST, BASIC and CLOUD as they are),
  or the constructor throws at once when the scheme is not a string. Once the CA file has
  been read, or when there is none to read, an empty (falsy) content database is replaced
  by \<^verbatim>\<open>null\<close>, a non-empty one being kept. A context that is returned holds the object
  as the constructor left it.
\<close>

lemma ClientContext_new_writes:
  "(fst (ClientContext_new readFileSync upper createDatabaseClient p))
       \<lparr>authType := authType p, contentDb := contentDb p\<rparr> = p
   \<and> (\<forall>s. authType p = Str s \<longrightarrow>
        authType (fst (ClientContext_new readFileSync upper createDatabaseClient p)) =
          Str (if is_ascii s then map upper_char s else upper s))
   \<and> ((\<forall>s. authType p \<noteq> Str s) \<longrightarrow>
        ClientContext_new readFileSync upper createDatabaseClient p = (p, Inl TypeError))
   \<and> (authType p \<in> {Str ''DIGEST'', Str ''BASIC'', Str ''CLOUD''} \<longrightarrow>
        authType (fst (ClientContext_new readFileSync upper createDatabaseClient p)) = authType p)
   \<and> (truthy (contentDb p) \<longrightarrow>
        contentDb (fst (ClientContext_new readFileSync upper createDatabaseClient p)) = contentDb p)
   \<and> ((\<exists>s. authType p = Str s) \<and> \<not> truthy (pathToCa p) \<and> \<not> truthy (contentDb p) \<longrightarrow>
        contentDb (fst (ClientContext_new readFileSync upper createDatabaseClient p)) = Null)
   \<and> (\<forall>c. snd (ClientContext_new readFileSync upper createDatabaseClient p) = Inr c \<longrightarrow>
        params c = fst (ClientContext_new readFileSync upper createDatabaseClient p)
        \<and> (\<not> truthy (contentDb p) \<longrightarrow> contentDb (params c) = Null))"
proof -
  let ?r = "ClientContext_new readFileSync upper createDatabaseClient p"
  have others: "(fst ?r)\<lparr>authType := authType p, contentDb := contentDb p\<rparr> = p"
    unfolding ClientContext_new_def
    by (simp add: Let_def split: sum.splits)
  have up: "authType (fst ?r) = Str (if is_ascii s then map upper_char s else upper s)"
    if "authType p = Str s" for s
  proof -
    define U where "U = (if is_ascii s then map upper_char s else upper s)"
    have tu: "toUpperCase upper (authType p) = Inr (Str U)"
      by (simp add: that toUpperCase_def U_def)
    have "authType (fst ?r) = Str U"
      unfolding ClientContext_new_def
      by (simp add: tu Let_def split: sum.splits)
    then show ?thesis by (simp only: U_def)
  qed
  have nonstr: "?r = (p, Inl TypeError)" if "\<forall>s. authType p \<noteq> Str s"
    using that unfolding ClientContext_new_def
    by (cases "authType p") (simp_all add: toUpperCase_def)
  have auth: "authType (fst ?r) = authType p"
    if "authType p \<in> {Str ''DIGEST'', Str ''BASIC'', Str ''CLOUD''}"
    unfolding ClientContext_new_def
    by (simp add: toUpperCase_recognized [OF that] Let_def split: sum.splits)
  have db: "contentDb (fst ?r) = contentDb p" if "truthy (contentDb p)"
    unfolding ClientContext_new_def using that
    by (simp add: Let_def split: sum.splits)
  have null: "contentDb (fst ?r) = Null"
    if "(\<exists>s. authType p = Str s) \<and> \<not> truthy (pathToCa p) \<and> \<not> truthy (contentDb p)"
    using that unfolding ClientContext_new_def
    by (auto simp: toUpperCase_def Let_def split: sum.splits)
  have ctx: "params c = fst ?r \<and> (\<not> truthy (contentDb p) \<longrightarrow> contentDb (params c) = Null)"
    if "snd ?r = Inr c" for c
    using that unfolding ClientContext_new_def
    by (auto simp: Let_def split: sum.splits if_splits)
  from others up nonstr auth db null ctx show ?thesis by blast
qed

text \<open>
  C7. A parameter object for the local server, built by the constructor, is the same as
  itself. Constructing a context over it writes \<^verbatim>\<open>null\<close> over its empty content
  database, and from then on the object, which the context holds, is no longer the same
  as a parameter object built from the same bag: \<^verbatim>\<open>hasSameParamsAs\<close> answers false for
  an unchanged configuration. The auth scheme is written too: on an object whose scheme
  is \<^verbatim>\<open>basic\<close> it is \<^verbatim>\<open>BASIC\<close> afterwards.
\<close>

theorem ClientContext_new_breaks_sameAs:
  "ClientContext_new no_files upper0 credentials_checked local_params =
     (local_params\<lparr>contentDb := Null\<rparr>, Inr local_context)
   \<and> contentDb local_params = Str []
   \<and> sameAs local_params local_params
   \<and> \<not> hasSameParamsAs local_context local_params
   \<and> authType (fst (ClientContext_new no_files upper0 credentials_checked
                      (local_params\<lparr>authType := Str ''basic''\<rparr>))) = Str ''BASIC''"
proof (intro conjI)
  show "ClientContext_new no_files upper0 credentials_checked local_params =
     (local_params\<lparr>contentDb := Null\<rparr>, Inr local_context)"
    by (simp add: ClientContext_new_def toUpperCase_recognized local_context_def
        clientOptions_def credentials_checked_def local_params_def MlClientParameters_new_def
        rd_def or_js_def normalize_authType_def strict_eq_def Let_def)
  show "contentDb local_params = Str []"
    by (simp add: local_params_fields)
  show "sameAs local_params local_params"
    by (simp add: sameAs_def local_params_fields strict_eq_def num_strict_eq_def)
  show "\<not> hasSameParamsAs local_context local_params"
    by (simp add: hasSameParamsAs_def local_context_def sameAs_def local_params_fields
        strict_eq_def)
  show "authType (fst (ClientContext_new no_files upper0 credentials_checked
                      (local_params\<lparr>authType := Str ''basic''\<rparr>))) = Str ''BASIC''"
    by (simp add: ClientContext_new_def toUpperCase_basic Let_def split: sum.splits)
qed

section \<open>Row queries\<close>

text \<open>
  C9. A query that does not begin with an opening brace goes to the library as DSL text.
  One that does goes through \<^verbatim>\<open>sendRowsSerialized\<close>: parsed, it goes to the library as
  a JSON query; when the parser rejects it, the result is a promise resolved with no
  columns, no rows and the parser's message as \<^verbatim>\<open>preRequestError\<close>.
\<close>

theorem sendRows_paths:
  "(\<not> startsWith q (CHR ''{'') \<longrightarrow>
      sendRows JSON_parse q fmt = RowsQuery (Inl q) \<lparr> queryType = ''dsl'', format = fmt \<rparr>)
   \<and> (startsWith q (CHR ''{'') \<longrightarrow>
      sendRows JSON_parse q fmt = sendRowsSerialized JSON_parse q fmt)
   \<and> (\<forall>v. startsWith q (CHR ''{'') \<and> JSON_parse q = Inr v \<and> val_truthy v \<longrightarrow>
      sendRows JSON_parse q fmt = RowsQuery (Inr v) \<lparr> queryType = ''json'', format = fmt \<rparr>)
   \<and> (\<forall>m. startsWith q (CHR ''{'') \<and> JSON_parse q = Inl m \<longrightarrow>
      sendRows JSON_parse q fmt = Resolved \<lparr> columns = [], rows = [], preRequestError = m \<rparr>)"
  by (simp add: sendRows_def sendRowsSerialized_def)

theorem sendRows_paths_witness:
  "sendRows reject_json ''{ \"$optic\": '' ''json''
     = Resolved \<lparr> columns = [], rows = [], preRequestError = ''Unexpected end of JSON input'' \<rparr>
   \<and> sendRows reject_json ''op.fromView()'' ''json''
     = RowsQuery (Inl ''op.fromView()'') \<lparr> queryType = ''dsl'', format = ''json'' \<rparr>"
proof -
  have a: "startsWith ''{ \"$optic\": '' (CHR ''{'')" by (simp add: startsWith_def)
  have b: "reject_json ''{ \"$optic\": '' = Inl ''Unexpected end of JSON input''"
    by (simp add: reject_json_def)
  have c: "\<not> startsWith ''op.fromView()'' (CHR ''{'')" by (simp add: startsWith_def)
  from a b sendRows_paths [where q = "''{ \"$optic\": ''" and JSON_parse = reject_json and fmt = "''json''"]
  have 1: "sendRows reject_json ''{ \"$optic\": '' ''json''
     = Resolved \<lparr> columns = [], rows = [], preRequestError = ''Unexpected end of JSON input'' \<rparr>"
    by blast
  from c sendRows_paths [where q = "''op.fromView()''" and JSON_parse = reject_json and fmt = "''json''"]
  have 2: "sendRows reject_json ''op.fromView()'' ''json''
     = RowsQuery (Inl ''op.fromView()'') \<lparr> queryType = ''dsl'', format = ''json'' \<rparr>"
    by blast
  from 1 2 show ?thesis by (rule conjI)
qed

section \<open>Derived role parameters\<close>

text \<open>
  C8. The REST derivation on a factory with content database \<^verbatim>\<open>Documents\<close>, configured
  with the REST base path \<^verbatim>\<open>/rest\<close>: host, user, password, TLS flag, CA path,
  reject-unauthorized flag, port and modules database are carried over, but the content
  database and the base path of the derived parameters are empty. The entry
  \<^verbatim>\<open>database\<close> of \<^verbatim>\<open>configParams\<close> is a key the constructor does not read, and
  \<^verbatim>\<open>restBasePath\<close> is a field the constructor does not assign.
\<close>

theorem newRestClientParams_loses_database:
  "cf_database local_factory = Str ''Documents''
   \<and> newRestClientParams strnum0 upper0 local_factory [] =
     Inr \<lparr> cf_host = Str ''localhost'', cf_port = Num 8000, cf_basePath = Str [],
           cf_user = Str ''admin'', cf_password = Str ''admin'',
           cf_database = Str [], cf_authType = Str ''DIGEST'', cf_ssl = False,
           cf_rejectUnauthorized = True, cf_pathToCa = Str [],
           cf_modulesDb = Str ''Modules'', cf_managePort = NaN,
           cf_adminPort = NaN, cf_testPort = NaN, cf_manageBasePath = Str [],
           cf_adminBasePath = Str [], cf_restBasePath = Undefined,
           cf_testBasePath = Str [] \<rparr>"
  by (simp add: newRestClientParams_def local_factory_def ClientFactory_new_def spread_def rd_def
      or_js_def cf_normalize_authType_def strict_eq_def toUpperCase_recognized
      strnum0_def)

text \<open>
  For every factory whose auth scheme is a string, the content database of the REST
  derivation is decided by the overrides alone.
\<close>

lemma rest_database_ignores_factory:
  "cf_authType this = Str a \<Longrightarrow>
   map_sum id cf_database (newRestClientParams strnum upper this overrides) =
     Inr (or_js (or_js (rd overrides ''contentDb'') (rd overrides ''documentsDb'')) (Str []))"
  by (simp add: newRestClientParams_def toUpperCase_def ClientFactory_new_def spread_def rd_def
      map_add_def split: option.splits)

text \<open>
  The manage and test derivations, when the overrides name none of the keys involved:
  the shared fields are those of the factory, the port and base path are the role's, and
  both database names are empty.
\<close>

lemma manage_and_test_fields:
  assumes "cf_authType this = Str a"
    and "map_of overrides ''host'' = None" "map_of overrides ''user'' = None"
    and "map_of overrides ''password'' = None" "map_of overrides ''ssl'' = None"
    and "map_of overrides ''pathToCa'' = None" "map_of overrides ''rejectUnauthorized'' = None"
    and "map_of overrides ''port'' = None" "map_of overrides ''basePath'' = None"
    and "map_of overrides ''contentDb'' = None" "map_of overrides ''documentsDb'' = None"
    and "map_of overrides ''modulesDb'' = None"
  shows "\<exists>r. newManageClientParams strnum upper this overrides = Inr r
     \<and> cf_host r = cf_host this \<and> cf_user r = cf_user this \<and> cf_password r = cf_password this
     \<and> cf_ssl r = cf_ssl this \<and> cf_pathToCa r = or_js (cf_pathToCa this) (Str [])
     \<and> cf_rejectUnauthorized r = cf_rejectUnauthorized this
     \<and> cf_port r = cf_managePort this \<and> cf_basePath r = or_js (cf_manageBasePath this) (Str [])
     \<and> cf_database r = Str [] \<and> cf_modulesDb r = Str []"
    and "\<exists>r. newTestClientParams strnum upper this overrides = Inr r
     \<and> cf_host r = cf_host this \<and> cf_user r = cf_user this \<and> cf_password r = cf_password this
     \<and> cf_ssl r = cf_ssl this \<and> cf_pathToCa r = or_js (cf_pathToCa this) (Str [])
     \<and> cf_rejectUnauthorized r = cf_rejectUnauthorized this
     \<and> cf_port r = cf_testPort this \<and> cf_basePath r = or_js (cf_testBasePath this) (Str [])
     \<and> cf_database r = Str [] \<and> cf_modulesDb r = Str []"
  using assms
  by (auto simp: newManageClientParams_def newTestClientParams_def toUpperCase_def
      ClientFactory_new_def spread_def rd_def map_add_def or_js_def)

text \<open>The two derivations on the local factory.\<close>

lemma manage_and_test_params:
  "newManageClientParams strnum0 upper0 local_factory [] =
     Inr \<lparr> cf_host = Str ''localhost'', cf_port = Num 8002, cf_basePath = Str ''/manage'',
           cf_user = Str ''admin'', cf_password = Str ''admin'',
           cf_database = Str [], cf_authType = Str ''DIGEST'', cf_ssl = False,
           cf_rejectUnauthorized = True, cf_pathToCa = Str [],
           cf_modulesDb = Str [], cf_managePort = NaN,
           cf_adminPort = NaN, cf_testPort = NaN, cf_manageBasePath = Str [],
           cf_adminBasePath = Str [], cf_restBasePath = Undefined,
           cf_testBasePath = Str [] \<rparr>"
  "newTestClientParams strnum0 upper0 local_factory [] =
     Inr \<lparr> cf_host = Str ''localhost'', cf_port = Num 8054, cf_basePath = Str [],
           cf_user = Str ''admin'', cf_password = Str ''admin'',
           cf_database = Str [], cf_authType = Str ''DIGEST'', cf_ssl = False,
           cf_rejectUnauthorized = True, cf_pathToCa = Str [],
           cf_modulesDb = Str [], cf_managePort = NaN,
           cf_adminPort = NaN, cf_testPort = NaN, cf_manageBasePath = Str [],
           cf_adminBasePath = Str [], cf_restBasePath = Undefined,
           cf_testBasePath = Str [] \<rparr>"
  by (simp_all add: newManageClientParams_def newTestClientParams_def local_factory_def
      ClientFactory_new_def spread_def rd_def or_js_def cf_normalize_authType_def strict_eq_def
      toUpperCase_recognized strnum0_def)

section \<open>Launching a session\<close>

text \<open>
  C1. \<^verbatim>\<open>XqyRuntime\<close>: the query is dispatched through the \<^verbatim>\<open>dbg\<close> entry point; when the
  dispatch succeeds and the result has a first row, the session id becomes the value of
  that row and the state becomes launched; when the dispatch fails, the state becomes
  error and the session id is left as it was. \<^verbatim>\<open>MLRuntime\<close>: once the script has been
  read the state is launched, set before the request is sent; the outcome of the dispatch
  changes neither the state nor the session id and is handed back to the caller.
\<close>

theorem launch_transitions:
  "(\<forall>fulfill row v.
      remote (length log) = Inr fulfill \<and> idx fulfill 0 = Inr row
        \<and> getprop row ''value'' = Inr v \<longrightarrow>
      xq_launchWithDebugEval remote this query log =
        (this\<lparr>xq_rid := v, xq_runTimeState := Launched\<rparr>, Inr (),
         snd (sendXQuery remote (xq_mlClient this) query ''dbg'' log)))
   \<and> (\<forall>e. remote (length log) = Inl e \<longrightarrow>
      xq_launchWithDebugEval remote this query log =
        (this\<lparr>xq_runTimeState := ErrorState\<rparr>, Inr (),
         snd (sendXQuery remote (xq_mlClient this) query ''dbg'' log)))
   \<and> (\<forall>script. readFile scriptLocation = Inr script \<longrightarrow>
      ml_launchWithDebugEval readFile escape hremote mthis scriptLocation hlog =
        (mthis\<lparr>ml_runTimeState := Launched\<rparr>,
         (case hremote (length hlog) of Inl e \<Rightarrow> Inl (Rejected e) | Inr body \<Rightarrow> Inr body),
         snd (sendMLdebugEvalRequest escape hremote (mthis\<lparr>ml_runTimeState := Launched\<rparr>)
                script hlog)))"
  by (auto simp: xq_launchWithDebugEval_def ml_launchWithDebugEval_def sendXQuery_def
      sendMLdebugEvalRequest_def Let_def split: sum.splits)

text \<open>
  A fresh \<^verbatim>\<open>XqyRuntime\<close> against the server that answers with a row of value 42, and
  against the one that refuses; a fresh \<^verbatim>\<open>MLRuntime\<close> against the refusing server.
\<close>

theorem launch_transitions_witness:
  "fst (xq_launchWithDebugEval rows42 (XqyRuntime_new local_context) ''1 + 1'' []) =
     \<lparr> xq_mlClient = local_context, xq_rid = Prim (Number (Num 42)),
       xq_runTimeState = Launched \<rparr>
   \<and> fst (xq_launchWithDebugEval refusing (XqyRuntime_new local_context) ''1 + 1'' []) =
     \<lparr> xq_mlClient = local_context, xq_rid = Prim (Str []), xq_runTimeState = ErrorState \<rparr>
   \<and> fst (ml_launchWithDebugEval one_script escape0 http_refusing MLRuntime_new
            ''/tmp/script.sjs'' []) =
     \<lparr> ml_hostName = [], ml_username = [], ml_password = [], ml_rid = [],
       ml_runTimeState = Launched \<rparr>"
proof -
  have a: "rows42 (length ([] :: xq_request list)) =
             Inr (Arr [Obj [(''format'', Prim (Str ''text'')),
                            (''datatype'', Prim (Str ''integer'')),
                            (''value'', Prim (Number (Num 42)))]])"
    by (simp add: rows42_def)
  have b: "idx (Arr [Obj [(''format'', Prim (Str ''text'')),
                          (''datatype'', Prim (Str ''integer'')),
                          (''value'', Prim (Number (Num 42)))]]) 0 =
             Inr (Obj [(''format'', Prim (Str ''text'')),
                       (''datatype'', Prim (Str ''integer'')),
                       (''value'', Prim (Number (Num 42)))])"
    by simp
  have c: "getprop (Obj [(''format'', Prim (Str ''text'')),
                         (''datatype'', Prim (Str ''integer'')),
                         (''value'', Prim (Number (Num 42)))]) ''value'' =
             Inr (Prim (Number (Num 42)))"
    by simp
  have d: "refusing (length ([] :: xq_request list)) =
             Inl (Obj [(''message'', Prim (Str ''connect ECONNREFUSED 127.0.0.1:8002''))])"
    by (simp add: refusing_def)
  have e: "one_script ''/tmp/script.sjs'' = Inr ''1 + 1''"
    by (simp add: one_script_def)
  note xq = launch_transitions [where remote = rows42 and log = "[]"
      and this = "XqyRuntime_new local_context" and query = "''1 + 1''"]
  note xq_fail = launch_transitions [where remote = refusing and log = "[]"
      and this = "XqyRuntime_new local_context" and query = "''1 + 1''"]
  note ml = launch_transitions [where readFile = one_script
      and scriptLocation = "''/tmp/script.sjs''" and escape = escape0
      and hremote = http_refusing and mthis = MLRuntime_new and hlog = "[]"]
  have 1: "fst (xq_launchWithDebugEval rows42 (XqyRuntime_new local_context) ''1 + 1'' []) =
     (XqyRuntime_new local_context)\<lparr>xq_rid := Prim (Number (Num 42)), xq_runTimeState := Launched\<rparr>"
    by (simp add: xq [THEN conjunct1, rule_format, OF conjI [OF a conjI [OF b c]]])
  have 2: "fst (xq_launchWithDebugEval refusing (XqyRuntime_new local_context) ''1 + 1'' []) =
     (XqyRuntime_new local_context)\<lparr>xq_runTimeState := ErrorState\<rparr>"
    by (simp add: xq_fail [THEN conjunct2, THEN conjunct1, rule_format, OF d])
  have 3: "fst (ml_launchWithDebugEval one_script escape0 http_refusing MLRuntime_new
            ''/tmp/script.sjs'' []) = MLRuntime_new\<lparr>ml_runTimeState := Launched\<rparr>"
    by (simp add: ml [THEN conjunct2, THEN conjunct2, rule_format, OF e])
  from 1 2 3 show ?thesis
    by (simp add: XqyRuntime_new_def MLRuntime_new_def)
qed

text \<open>
  \<^verbatim>\<open>MLRuntime\<close>, as the claim has it for both runtimes, fails twice: after a failed
  dispatch the state is not error, and after a successful one the session id is still
  empty.
\<close>

theorem ml_launch_never_error:
  "ml_runTimeState (fst (ml_launchWithDebugEval one_script escape0 http_refusing MLRuntime_new
                            ''/tmp/script.sjs'' [])) \<noteq> ErrorState
   \<and> fst (snd (ml_launchWithDebugEval one_script escape0 http_rid MLRuntime_new
                            ''/tmp/script.sjs'' [])) = Inr ''7269983682075137874''
   \<and> ml_rid (fst (ml_launchWithDebugEval one_script escape0 http_rid MLRuntime_new
                            ''/tmp/script.sjs'' [])) = []"
  by (simp add: ml_launchWithDebugEval_def one_script_def sendMLdebugEvalRequest_def
      http_refusing_def http_rid_def MLRuntime_new_def Let_def)

section \<open>Terminating a session\<close>

text \<open>
  C2. \<^verbatim>\<open>terminate\<close>, in both runtimes, sends one cancellation request and hands its
  outcome back; the runtime, its state and its session id, is after the call what it
  was before, whatever the outcome.
\<close>

theorem terminate_keeps_state:
  "fst (ml_terminate remote this log) = this
   \<and> fst (snd (ml_terminate remote this log)) = remote (length log)
   \<and> snd (snd (ml_terminate remote this log)) =
       log @ [\<lparr> http_method = ''POST'',
                 http_url = ''http://'' @ ml_hostName this @ '':8002/jsdbg/v1/request-cancel/''
                              @ ml_rid this,
                 http_user = ml_username this, http_pass = ml_password this,
                 http_headers = [], http_body = Some ''server-name=TaskServer'' \<rparr>]
   \<and> fst (xq_terminate xremote xthis xlog) = xthis
   \<and> fst (snd (xq_terminate xremote xthis xlog)) = xremote (length xlog)
   \<and> map ext_actualQuery (snd (snd (xq_terminate xremote xthis xlog))) =
       map ext_actualQuery xlog @ [''dbg:disconnent(xdmp:server())'']"
  by (simp add: ml_terminate_def xq_terminate_def sendMLdebugRequestPOST_def sendXQuery_def
      Let_def)

text \<open>A launched runtime is not shut down by \<^verbatim>\<open>terminate\<close>.\<close>

theorem terminate_not_shutdown:
  "ml_runTimeState
     (fst (ml_terminate http_refusing (MLRuntime_new\<lparr>ml_runTimeState := Launched\<rparr>) []))
     \<noteq> Shutdown
   \<and> xq_runTimeState (fst (xq_terminate rows42 launched_runtime [])) \<noteq> Shutdown"
  by (simp add: ml_terminate_def xq_terminate_def sendMLdebugRequestPOST_def sendXQuery_def
      launched_runtime_def MLRuntime_new_def Let_def)

section \<open>Waiting for a pause\<close>

text \<open>
  C3. Against a server that answers \<open>N\<close> polls with the empty string and the next one
  with anything else, a payload or a failure, \<^verbatim>\<open>waitTillPaused\<close> settles with that
  answer after exactly \<open>N + 1\<close> \<^verbatim>\<open>wait\<close> requests: it resolves with the payload, or
  rejects with the failure without polling again.
\<close>

theorem waitTillPaused_polls:
  "(\<forall>k<N. remote (length log + k) = Inr []) \<Longrightarrow> remote (length log + N) \<noteq> Inr [] \<Longrightarrow>
   waitTillPaused remote this log =
     Some (remote (length log + N),
           log @ replicate (Suc N)
             \<lparr> http_method = ''POST'',
               http_url = ''http://'' @ ml_hostName this @ '':8002/jsdbg/v1/wait/'' @ ml_rid this,
               http_user = ml_username this, http_pass = ml_password this,
               http_headers = [], http_body = Some ''time-out=5'' \<rparr>)"
proof (induction N arbitrary: log)
  case 0
  then show ?case
    by (subst waitTillPaused.simps)
       (auto simp: ml_wait_def sendMLdebugRequestPOST_def split: sum.splits)
next
  case (Suc N)
  let ?req = "\<lparr> http_method = ''POST'',
               http_url = ''http://'' @ ml_hostName this @ '':8002/jsdbg/v1/wait/'' @ ml_rid this,
               http_user = ml_username this, http_pass = ml_password this,
               http_headers = [], http_body = Some ''time-out=5'' \<rparr>"
  from Suc.prems(1) have first: "remote (length log) = Inr []" by force
  have rest: "\<forall>k<N. remote (length (log @ [?req]) + k) = Inr []"
    using Suc.prems(1) by (auto simp: less_Suc_eq_0_disj)
  have last: "remote (length (log @ [?req]) + N) \<noteq> Inr []"
    using Suc.prems(2) by simp
  have "waitTillPaused remote this log = waitTillPaused remote this (log @ [?req])"
    by (subst waitTillPaused.simps)
       (simp add: ml_wait_def sendMLdebugRequestPOST_def first)
  also have "\<dots> = Some (remote (length (log @ [?req]) + N), (log @ [?req]) @ replicate (Suc N) ?req)"
    by (rule Suc.IH [OF rest last])
  finally show ?case by (simp add: replicate_append_same)
qed

text \<open>
  Three empty answers and then a payload: four polls. A refused connection: one poll,
  and the rejection.
\<close>

theorem waitTillPaused_polls_witness:
  "waitTillPaused three_empties MLRuntime_new [] =
     Some (Inr ''{\"requestState\":\"stopped\"}'',
           replicate 4 \<lparr> http_method = ''POST'', http_url = ''http://:8002/jsdbg/v1/wait/'',
                          http_user = [], http_pass = [], http_headers = [],
                          http_body = Some ''time-out=5'' \<rparr>)
   \<and> waitTillPaused http_refusing MLRuntime_new [] =
     Some (Inl (Obj [(''message'', Prim (Str ''connect ECONNREFUSED 127.0.0.1:8002''))]),
           [\<lparr> http_method = ''POST'', http_url = ''http://:8002/jsdbg/v1/wait/'',
               http_user = [], http_pass = [], http_headers = [],
               http_body = Some ''time-out=5'' \<rparr>])"
proof -
  have a: "\<forall>k<3. three_empties (length ([] :: http_request list) + k) = Inr []"
    by (simp add: three_empties_def)
  have b: "three_empties (length ([] :: http_request list) + 3) \<noteq> Inr []"
    by (simp add: three_empties_def)
  have e: "three_empties (length ([] :: http_request list) + 3) = Inr ''{\"requestState\":\"stopped\"}''"
    by (simp add: three_empties_def)
  have c: "\<forall>k<0. http_refusing (length ([] :: http_request list) + k) = Inr []"
    by simp
  have d: "http_refusing (length ([] :: http_request list) + 0) \<noteq> Inr []"
    by (simp add: http_refusing_def)
  have f: "http_refusing (length ([] :: http_request list) + 0) =
             Inl (Obj [(''message'', Prim (Str ''connect ECONNREFUSED 127.0.0.1:8002''))])"
    by (simp add: http_refusing_def)
  have 1: "waitTillPaused three_empties MLRuntime_new [] =
     Some (Inr ''{\"requestState\":\"stopped\"}'',
           replicate 4 \<lparr> http_method = ''POST'', http_url = ''http://:8002/jsdbg/v1/wait/'',
                          http_user = [], http_pass = [], http_headers = [],
                          http_body = Some ''time-out=5'' \<rparr>)"
    using waitTillPaused_polls [OF a b, where this = MLRuntime_new] unfolding e
    by (simp add: MLRuntime_new_def eval_nat_numeral)
  have 2: "waitTillPaused http_refusing MLRuntime_new [] =
     Some (Inl (Obj [(''message'', Prim (Str ''connect ECONNREFUSED 127.0.0.1:8002''))]),
           [\<lparr> http_method = ''POST'', http_url = ''http://:8002/jsdbg/v1/wait/'',
               http_user = [], http_pass = [], http_headers = [],
               http_body = Some ''time-out=5'' \<rparr>])"
    using waitTillPaused_polls [OF c d, where this = MLRuntime_new] unfolding f
    by (simp add: MLRuntime_new_def)
  from 1 2 show ?thesis by (rule conjI)
qed

section \<open>Breakpoints\<close>

text \<open>
  C4. A breakpoint with no expression id, a runtime whose session id is 42, and a server
  that answers every query with a row array. The lookup callback reads
  \<^verbatim>\<open>fulfill['value'][0]\<close>; an array has no property \<^verbatim>\<open>value\<close>, so the callback throws:
  \<^verbatim>\<open>setBreakPoint\<close> rejects, the breakpoint stays unresolved and no set request is
  sent. Called twice, it sends two lookups and nothing else. \<^verbatim>\<open>removeBreakPoint\<close>
  fails in the same way.
\<close>

theorem setBreakPoint_twice_never_sets:
  "xq_setBreakPoint expform0 rows42 launched_runtime main_breakpoint [] =
     (main_breakpoint, Inl TypeError,
      snd (sendXQuery rows42 local_context ''dbg:line(42, /main.xqy, 3)'' ''xdmp'' []))
   \<and> map ext_actualQuery
       (snd (snd (xq_setBreakPoint expform0 rows42 launched_runtime
          (fst (xq_setBreakPoint expform0 rows42 launched_runtime main_breakpoint []))
          (snd (snd (xq_setBreakPoint expform0 rows42 launched_runtime main_breakpoint []))))))
     = [''dbg:line(42, /main.xqy, 3)'', ''dbg:line(42, /main.xqy, 3)'']
   \<and> xq_removeBreakPoint expform0 rows42 launched_runtime main_breakpoint [] =
     (main_breakpoint, Inl TypeError,
      snd (sendXQuery rows42 local_context ''dbg:line(42, /main.xqy, 3)'' ''xdmp'' []))"
  by (simp add: xq_setBreakPoint_def xq_removeBreakPoint_def findBreakPointExpr_def
      sendXQuery_def rows42_def launched_runtime_def main_breakpoint_def show_int_42 show_int_3
      Let_def)

text \<open>
  Against a server whose answer is an object with an array under \<^verbatim>\<open>value\<close>, the same
  two calls send one lookup and two set requests.
\<close>

lemma setBreakPoint_object_shaped:
  "map ext_actualQuery
       (snd (snd (xq_setBreakPoint expform0 object42 launched_runtime
          (fst (xq_setBreakPoint expform0 object42 launched_runtime main_breakpoint []))
          (snd (snd (xq_setBreakPoint expform0 object42 launched_runtime main_breakpoint []))))))
     = [''dbg:line(42, /main.xqy, 3)'', ''dbg:break(42, 42)'', ''dbg:break(42, 42)'']"
  by (simp add: xq_setBreakPoint_def findBreakPointExpr_def sendXQuery_def object42_def
      launched_runtime_def main_breakpoint_def show_int_42 show_int_3 Let_def)

section \<open>Filtering servers by connected status\<close>

text \<open>
  When every failed probe carries an error object with a body, the failures are dropped
  and the choices whose answer is the required string are kept, in the order in which
  the answers arrive.
\<close>

lemma settle_bodied:
  "\<forall>(c, r) \<in> set cs. \<forall>e. r = Inl e \<longrightarrow>
      (\<exists>b. getprop e ''body'' = Inr b \<and> b \<noteq> Prim Undefined \<and> b \<noteq> Prim Null) \<Longrightarrow>
   settle req cs acc =
     Inr (acc @ map fst (filter (\<lambda>(c, r). r = Inr (Prim (Str req))) cs))"
proof (induction req cs acc rule: settle.induct)
  case (1 requiredResponse filteredChoices)
  then show ?case by simp
next
  case (2 requiredResponse choice response rest filteredChoices)
  then show ?case by simp
next
  case (3 requiredResponse choice error rest filteredChoices)
  from "3.prems" obtain b
    where b: "getprop error ''body'' = Inr b" "b \<noteq> Prim Undefined" "b \<noteq> Prim Null"
    by auto
  then obtain p where p: "getprop b ''errorResponse'' = Inr p"
    by (cases "(b, ''errorResponse'')" rule: getprop.cases) auto
  from "3.prems" have rest: "\<forall>(c, r) \<in> set rest. \<forall>e. r = Inl e \<longrightarrow>
      (\<exists>b. getprop e ''body'' = Inr b \<and> b \<noteq> Prim Undefined \<and> b \<noteq> Prim Null)"
    by simp
  from "3.IH" [OF b(1) p rest] b p show ?case by simp
qed

text \<open>
  C10. One candidate, whose probe fails with an error object that has a message and no
  body. The handler that prints \<^verbatim>\<open>error.body.errorResponse\<close> throws on it, and the
  filter rejects instead of returning the empty list.
\<close>

theorem filter_fails_on_bodyless_error:
  "filterJsServerByConnectedStatus strnum0 upper0 no_files credentials_checked refusing [0]
       local_factory [local_item] ''true''
     = Inl TypeError"
  by (simp add: filterJsServerByConnectedStatus_def newMarklogicManageClient_def
      newManageClientParams_def local_factory_def ClientFactory_new_def spread_def rd_def
      or_js_def cf_normalize_authType_def strict_eq_def toUpperCase_recognized
      strnum0_def clientOptions_def credentials_checked_def
      toMlClientParameters_def MlClientParameters_new_def normalize_authType_def
      ClientContext_new_def num_or_def DEFAULT_MANAGE_PORT_def DEFAULT_ADMIN_PORT_def
      refusing_def Let_def)

end
